theory Spec2Isabelle
  imports Main
begin

section \<open>The persistent store (src/db.ts)\<close>

text \<open>
  The store is a libSQL database with two tables. \<open>stats\<close> has the primary key \<open>id\<close>
  and \<open>rate_limits\<close> the primary key \<open>ip\<close>, so each table is a map from its key to the
  remaining columns; a table that was not created yet is \<open>None\<close>.

  JavaScript numbers are modelled as \<open>int\<close>: every number the store layer handles is a
  count of domains or a millisecond timestamp from \<open>Date.now()\<close>, far below \<open>2^53\<close>.
  \<open>Date.now()\<close> is the parameter \<open>now\<close> of each operation.
\<close>

record RateLimit =
  count :: int
  timestamp :: int

record Stats =
  total_requests :: int
  total_domains_checked :: int
  blocked_domains :: int
  not_blocked_domains :: int
  error_domains :: int
  last_reset :: int
  unique_users :: string

record db =
  stats :: "(string \<rightharpoonup> Stats) option"
  rate_limits :: "(string \<rightharpoonup> RateLimit) option"

text \<open>
  \<open>client.execute\<close> returns a promise that is rejected when the statement cannot be run.
  A rejected promise is the value \<open>Inl StoreError\<close>; a statement that fails leaves the
  database as it was.
\<close>

datatype js_error = StoreError

type_synonym 'a io = "db \<Rightarrow> (js_error + 'a) \<times> db"

definition ret :: "'a \<Rightarrow> 'a io" where
  "ret x d = (Inr x, d)"

definition andThen :: "'a io \<Rightarrow> ('a \<Rightarrow> 'b io) \<Rightarrow> 'b io" where
  "andThen m f d = (case m d of (Inl e, d') \<Rightarrow> (Inl e, d') | (Inr x, d') \<Rightarrow> f x d')"

text \<open>
  Connectivity failures are an input of the model: \<open>fails k\<close> says that the \<open>k\<close>-th
  \<open>client.execute\<close> call site of the function being run (counted from 0 in source order)
  throws. No function of db.ts has a loop, so each site runs at most once per call.
\<close>

definition execute :: "(nat \<Rightarrow> bool) \<Rightarrow> nat \<Rightarrow> 'a io \<Rightarrow> 'a io" where
  "execute fails site stmt d = (if fails site then (Inl StoreError, d) else stmt d)"

definition no_faults :: "nat \<Rightarrow> bool" where
  "no_faults site = False"

subsection \<open>The SQL statements\<close>

text \<open>
  db.ts builds its statements by string interpolation, the second copy of the file
  binds the same values as parameters. The statements below are the bound form: the
  client identifier is a value compared with the key column.
\<close>

definition default_stats :: "int \<Rightarrow> Stats" where
  "default_stats now =
     \<lparr>total_requests = 0, total_domains_checked = 0, blocked_domains = 0,
      not_blocked_domains = 0, error_domains = 0, last_reset = now, unique_users = ''[]''\<rparr>"

definition create_stats_table :: "unit io" where
  \<comment> \<open>CREATE TABLE IF NOT EXISTS stats (...)\<close>
  "create_stats_table d =
     (case stats d of None \<Rightarrow> (Inr (), d\<lparr>stats := Some Map.empty\<rparr>) | Some t \<Rightarrow> (Inr (), d))"

definition create_rate_limits_table :: "unit io" where
  \<comment> \<open>CREATE TABLE IF NOT EXISTS rate_limits (...)\<close>
  "create_rate_limits_table d =
     (case rate_limits d of None \<Rightarrow> (Inr (), d\<lparr>rate_limits := Some Map.empty\<rparr>)
      | Some t \<Rightarrow> (Inr (), d))"

definition select_global_stats :: "Stats option io" where
  \<comment> \<open>SELECT ... FROM stats WHERE id = "global", then \<open>rows[0]\<close>\<close>
  "select_global_stats d =
     (case stats d of None \<Rightarrow> (Inl StoreError, d) | Some t \<Rightarrow> (Inr (t ''global''), d))"

definition insert_default_stats :: "int \<Rightarrow> unit io" where
  \<comment> \<open>INSERT INTO stats (...) VALUES ("global", 0, 0, 0, 0, 0, now, "[]")\<close>
  "insert_default_stats now d =
     (case stats d of None \<Rightarrow> (Inl StoreError, d)
      | Some t \<Rightarrow>
          (case t ''global'' of
             Some row \<Rightarrow> (Inl StoreError, d)
           | None \<Rightarrow> (Inr (), d\<lparr>stats := Some (t(''global'' \<mapsto> default_stats now))\<rparr>)))"

definition delete_expired :: "int \<Rightarrow> (string \<rightharpoonup> RateLimit) \<Rightarrow> (string \<rightharpoonup> RateLimit)" where
  "delete_expired windowStart t =
     (\<lambda>ip. case t ip of None \<Rightarrow> None
           | Some e \<Rightarrow> if timestamp e < windowStart then None else Some e)"

definition delete_old_rate_limits :: "int \<Rightarrow> unit io" where
  \<comment> \<open>DELETE FROM rate_limits WHERE timestamp < windowStart\<close>
  "delete_old_rate_limits windowStart d =
     (case rate_limits d of None \<Rightarrow> (Inl StoreError, d)
      | Some t \<Rightarrow> (Inr (), d\<lparr>rate_limits := Some (delete_expired windowStart t)\<rparr>))"

definition select_rate_limit :: "string \<Rightarrow> RateLimit option io" where
  \<comment> \<open>SELECT count, timestamp FROM rate_limits WHERE ip = ?, then \<open>rows[0]\<close>\<close>
  "select_rate_limit ip d =
     (case rate_limits d of None \<Rightarrow> (Inl StoreError, d) | Some t \<Rightarrow> (Inr (t ip), d))"

definition insert_rate_limit :: "string \<Rightarrow> int \<Rightarrow> int \<Rightarrow> unit io" where
  \<comment> \<open>INSERT INTO rate_limits (ip, count, timestamp) VALUES (?, ?, ?)\<close>
  "insert_rate_limit ip c ts d =
     (case rate_limits d of None \<Rightarrow> (Inl StoreError, d)
      | Some t \<Rightarrow>
          (case t ip of
             Some row \<Rightarrow> (Inl StoreError, d)
           | None \<Rightarrow> (Inr (), d\<lparr>rate_limits := Some (t(ip \<mapsto> \<lparr>count = c, timestamp = ts\<rparr>))\<rparr>)))"

definition update_rate_limit :: "string \<Rightarrow> int \<Rightarrow> int \<Rightarrow> unit io" where
  \<comment> \<open>UPDATE rate_limits SET count = ?, timestamp = ? WHERE ip = ?\<close>
  "update_rate_limit ip c ts d =
     (case rate_limits d of None \<Rightarrow> (Inl StoreError, d)
      | Some t \<Rightarrow>
          (case t ip of
             None \<Rightarrow> (Inr (), d)
           | Some row \<Rightarrow> (Inr (), d\<lparr>rate_limits := Some (t(ip \<mapsto> \<lparr>count = c, timestamp = ts\<rparr>))\<rparr>)))"

definition entry_of :: "db \<Rightarrow> string \<Rightarrow> RateLimit option" where
  "entry_of d ip = (case rate_limits d of None \<Rightarrow> None | Some t \<Rightarrow> t ip)"

section \<open>The rate limiter (checkRateLimit)\<close>

record RateLimitResult =
  allowed :: bool
  remaining :: int
  resetTime :: int

text \<open>
  The body of the \<open>try\<close> block. Call sites: 0 the DELETE, 1 the SELECT, 2 the INSERT,
  3 the UPDATE. Before the block the function only reads the clock and asks
  \<open>initializeDbClient\<close> for the client, which the database middleware has created
  by then.
\<close>

definition checkRateLimit_try ::
  "(nat \<Rightarrow> bool) \<Rightarrow> string \<Rightarrow> int \<Rightarrow> int \<Rightarrow> int \<Rightarrow> int \<Rightarrow> RateLimitResult io" where
  "checkRateLimit_try fails ip domainCount maxDomains windowMinutes now =
     (let windowStart = now - windowMinutes * 60 * 1000 in
      andThen (execute fails 0 (delete_old_rate_limits windowStart)) (\<lambda>_.
      andThen (execute fails 1 (select_rate_limit ip)) (\<lambda>usage.
        case usage of
          None \<Rightarrow>
            if domainCount > maxDomains
            then ret \<lparr>allowed = False, remaining = maxDomains,
                      resetTime = now + windowMinutes * 60 * 1000\<rparr>
            else andThen (execute fails 2 (insert_rate_limit ip domainCount now)) (\<lambda>_.
                   ret \<lparr>allowed = True, remaining = maxDomains - domainCount,
                        resetTime = now + windowMinutes * 60 * 1000\<rparr>)
        | Some u \<Rightarrow>
            let totalCount = count u + domainCount in
            if totalCount > maxDomains
            then ret \<lparr>allowed = False, remaining = maxDomains - count u,
                      resetTime = timestamp u + windowMinutes * 60 * 1000\<rparr>
            else andThen (execute fails 3 (update_rate_limit ip totalCount now)) (\<lambda>_.
                   ret \<lparr>allowed = True, remaining = maxDomains - totalCount,
                        resetTime = now + windowMinutes * 60 * 1000\<rparr>))))"

text \<open>The whole function: the \<open>catch\<close> block turns any rejection into an accepted request.\<close>

definition checkRateLimit ::
  "(nat \<Rightarrow> bool) \<Rightarrow> string \<Rightarrow> int \<Rightarrow> int \<Rightarrow> int \<Rightarrow> int \<Rightarrow> db \<Rightarrow> RateLimitResult \<times> db" where
  "checkRateLimit fails ip domainCount maxDomains windowMinutes now d =
     (case checkRateLimit_try fails ip domainCount maxDomains windowMinutes now d of
        (Inl e, d') \<Rightarrow>
          (\<lparr>allowed = True, remaining = maxDomains - domainCount,
            resetTime = now + windowMinutes * 60 * 1000\<rparr>, d')
      | (Inr r, d') \<Rightarrow> (r, d'))"

section \<open>Schema initialisation and statistics (src/db.ts)\<close>

text \<open>
  \<open>initializeTables\<close>. Call sites: 0 CREATE TABLE stats, 1 the SELECT, 2 the INSERT of
  the default row, 3 CREATE TABLE rate_limits. The \<open>catch\<close> block logs and rethrows.
\<close>

definition initializeTables :: "(nat \<Rightarrow> bool) \<Rightarrow> int \<Rightarrow> unit io" where
  "initializeTables fails now =
     andThen (execute fails 0 create_stats_table) (\<lambda>_.
     andThen (execute fails 1 select_global_stats) (\<lambda>statsResult.
     andThen (case statsResult of
                None \<Rightarrow> execute fails 2 (insert_default_stats now)
              | Some row \<Rightarrow> ret ()) (\<lambda>_.
     execute fails 3 create_rate_limits_table)))"

text \<open>Running the initialisation several times, each run with its own faults and clock.\<close>

fun initializeTables_runs :: "((nat \<Rightarrow> bool) \<times> int) list \<Rightarrow> db \<Rightarrow> db" where
  "initializeTables_runs [] d = d"
| "initializeTables_runs ((fails, now) # runs) d =
     initializeTables_runs runs (snd (initializeTables fails now d))"

text \<open>
  \<open>getStats\<close>. \<open>now\<close> is the clock read for \<open>defaultStats\<close>, \<open>now'\<close> the one read before
  the INSERT. Call sites: 0 the SELECT, 1 the INSERT. \<open>Number(x) || d\<close> is \<open>x\<close> unless
  \<open>x\<close> is 0; every default but the one of \<open>last_reset\<close> is 0 itself.
\<close>

definition getStats :: "(nat \<Rightarrow> bool) \<Rightarrow> int \<Rightarrow> int \<Rightarrow> Stats io" where
  "getStats fails now now' =
     andThen (execute fails 0 select_global_stats) (\<lambda>result.
       case result of
         None \<Rightarrow> andThen (execute fails 1 (insert_default_stats now')) (\<lambda>_.
                   ret (default_stats now))
       | Some row \<Rightarrow>
           ret (row\<lparr>last_reset := (if last_reset row = 0 then now else last_reset row),
                    unique_users := (if unique_users row = [] then ''[]'' else unique_users row)\<rparr>))"

text \<open>
  The argument of \<open>incrementStats\<close>; every field is optional. The last three fields are
  \<open>blocked\<close>, \<open>notBlocked\<close> and \<open>errors\<close> in the source.
\<close>

record StatsDelta =
  requests :: "int option"
  domainsChecked :: "int option"
  d_blocked :: "int option"
  d_notBlocked :: "int option"
  d_errors :: "int option"

datatype column =
  TotalRequests | TotalDomainsChecked | BlockedDomains | NotBlockedDomains | ErrorDomains

definition add_column :: "column \<Rightarrow> int \<Rightarrow> Stats \<Rightarrow> Stats" where
  \<comment> \<open>one \<open>col = col + n\<close> of the SET clause\<close>
  "add_column c n row =
     (case c of
        TotalRequests \<Rightarrow> row\<lparr>total_requests := total_requests row + n\<rparr>
      | TotalDomainsChecked \<Rightarrow> row\<lparr>total_domains_checked := total_domains_checked row + n\<rparr>
      | BlockedDomains \<Rightarrow> row\<lparr>blocked_domains := blocked_domains row + n\<rparr>
      | NotBlockedDomains \<Rightarrow> row\<lparr>not_blocked_domains := not_blocked_domains row + n\<rparr>
      | ErrorDomains \<Rightarrow> row\<lparr>error_domains := error_domains row + n\<rparr>)"

definition push_update :: "column \<Rightarrow> int option \<Rightarrow> (column \<times> int) list" where
  \<comment> \<open>\<open>if (stats.x) updates.push(...)\<close>: an absent field and 0 are both falsy\<close>
  "push_update c v = (case v of None \<Rightarrow> [] | Some n \<Rightarrow> if n \<noteq> 0 then [(c, n)] else [])"

definition stats_updates :: "StatsDelta \<Rightarrow> (column \<times> int) list" where
  "stats_updates s =
     push_update TotalRequests (requests s) @
     push_update TotalDomainsChecked (domainsChecked s) @
     push_update BlockedDomains (d_blocked s) @
     push_update NotBlockedDomains (d_notBlocked s) @
     push_update ErrorDomains (d_errors s)"

definition update_stats :: "(column \<times> int) list \<Rightarrow> unit io" where
  \<comment> \<open>UPDATE stats SET ... WHERE id = "global"\<close>
  "update_stats updates d =
     (case stats d of None \<Rightarrow> (Inl StoreError, d)
      | Some t \<Rightarrow>
          (case t ''global'' of
             None \<Rightarrow> (Inr (), d)
           | Some row \<Rightarrow>
               (Inr (), d\<lparr>stats :=
                  Some (t(''global'' \<mapsto> foldl (\<lambda>r (c, n). add_column c n r) row updates))\<rparr>)))"

text \<open>
  \<open>incrementStats\<close>. Call sites: 0 the SELECT, 1 the INSERT of the default row, 2 the
  UPDATE. The \<open>catch\<close> block throws a new error.
\<close>

definition incrementStats :: "(nat \<Rightarrow> bool) \<Rightarrow> StatsDelta \<Rightarrow> int \<Rightarrow> unit io" where
  "incrementStats fails s now =
     (let updates = stats_updates s in
      if length updates > 0
      then andThen (execute fails 0 select_global_stats) (\<lambda>result.
           andThen (case result of
                      None \<Rightarrow> execute fails 1 (insert_default_stats now)
                    | Some row \<Rightarrow> ret ()) (\<lambda>_.
           execute fails 2 (update_stats updates)))
      else ret ())"

definition global_stats :: "db \<Rightarrow> Stats option" where
  "global_stats d = (case stats d of None \<Rightarrow> None | Some t \<Rightarrow> t ''global'')"

section \<open>JavaScript values\<close>

text \<open>
  The values JSON can carry, and \<open>undefined\<close>. Numbers are integers. An object is the
  list of its own properties. Of the inherited properties \<open>__proto__\<close> is modelled: it
  reads the prototype, an object (for an array, an array) that has no entry of the
  lookup response. Every other inherited property is a function; the batch checker
  treats a function like \<open>undefined\<close>, and the model reads it as \<open>Undefined\<close>.
\<close>

datatype jsval =
  Undefined | Null | Bool bool | Num int | Str string
  | Arr "jsval list" | Obj "(string \<times> jsval) list"

fun truthy :: "jsval \<Rightarrow> bool" where
  "truthy Undefined = False"
| "truthy Null = False"
| "truthy (Bool b) = b"
| "truthy (Num n) = (n \<noteq> 0)"
| "truthy (Str s) = (s \<noteq> [])"
| "truthy (Arr xs) = True"
| "truthy (Obj ps) = True"

fun typeof_object :: "jsval \<Rightarrow> bool" where
  \<comment> \<open>\<open>typeof v === 'object'\<close>\<close>
  "typeof_object Null = True"
| "typeof_object (Arr xs) = True"
| "typeof_object (Obj ps) = True"
| "typeof_object v = False"

definition array_index :: "string \<Rightarrow> nat option" where
  \<comment> \<open>the index a property name denotes: a decimal numeral without leading zeros\<close>
  "array_index s =
     (if s = [] \<or> \<not> list_all (\<lambda>c. 48 \<le> (of_char c :: nat) \<and> (of_char c :: nat) \<le> 57) s
         \<or> (hd s = CHR ''0'' \<and> s \<noteq> ''0'')
      then None
      else Some (foldl (\<lambda>n c. 10 * n + (of_char c - 48)) 0 s))"

fun get_prop :: "jsval \<Rightarrow> string \<Rightarrow> jsval" where
  \<comment> \<open>\<open>v[k]\<close> for a value \<open>v\<close> that is an object or an array\<close>
  "get_prop (Obj ps) k =
     (case map_of ps k of
        Some v \<Rightarrow> v
      | None \<Rightarrow> if k = ''__proto__'' then Obj [] else Undefined)"
| "get_prop (Arr xs) k =
     (if k = ''length'' then Num (int (length xs))
      else case array_index k of
             Some i \<Rightarrow> if i < length xs then xs ! i else Undefined
           | None \<Rightarrow> if k = ''__proto__'' then Arr [] else Undefined)"
| "get_prop v k = Undefined"

text \<open>
  \<open>JSON.parse\<close> on the texts of the form the \<open>unique_users\<close> column holds: an array of
  string literals, without white space and without escape sequences. Any other text is
  outside this fragment and is reported like a syntax error.
\<close>

datatype parse_mode = AtStart | AfterOpen | InString string | AfterString | AfterComma | AtEnd

fun JSON_scan :: "parse_mode \<Rightarrow> jsval list \<Rightarrow> string \<Rightarrow> jsval option" where
  "JSON_scan m items [] = (case m of AtEnd \<Rightarrow> Some (Arr items) | _ \<Rightarrow> None)"
| "JSON_scan m items (c # cs) =
     (case m of
        AtStart \<Rightarrow> if c = CHR ''['' then JSON_scan AfterOpen items cs else None
      | AfterOpen \<Rightarrow>
          if c = CHR '']'' then JSON_scan AtEnd items cs
          else if c = CHR 0x22 then JSON_scan (InString []) items cs else None
      | InString s \<Rightarrow>
          if c = CHR 0x22 then JSON_scan AfterString (items @ [Str s]) cs
          else if c = CHR 0x5C \<or> (of_char c :: nat) < 32 then None
          else JSON_scan (InString (s @ [c])) items cs
      | AfterString \<Rightarrow>
          if c = CHR '']'' then JSON_scan AtEnd items cs
          else if c = CHR '','' then JSON_scan AfterComma items cs else None
      | AfterComma \<Rightarrow> if c = CHR 0x22 then JSON_scan (InString []) items cs else None
      | AtEnd \<Rightarrow> None)"

definition JSON_parse :: "string \<Rightarrow> jsval option" where
  "JSON_parse text = JSON_scan AtStart [] text"

section \<open>The batch checker (src/index.ts)\<close>

record DomainCheckResult =
  originalUrl :: string
  status :: string
  blocked :: jsval
  error :: bool

text \<open>
  What \<open>fetch\<close> and \<open>response.json()\<close> give for one request to the lookup endpoint:
  \<open>fetch\<close> throws, or it returns a response with its \<open>ok\<close> flag and a body that parses
  to a value (\<open>Some\<close>) or makes \<open>response.json()\<close> throw (\<open>None\<close>). The endpoint is a
  parameter of the model: a function of the \<open>domains\<close> query parameter.
\<close>

datatype fetch_result = NetworkError | HttpResponse bool "jsval option"

fun join_commas :: "string list \<Rightarrow> string" where
  \<comment> \<open>\<open>domains.join(',')\<close>\<close>
  "join_commas [] = []"
| "join_commas [x] = x"
| "join_commas (x # y # ys) = x @ '','' @ join_commas (y # ys)"

definition api_request_failed :: "string \<Rightarrow> DomainCheckResult" where
  "api_request_failed domain =
     \<lparr>originalUrl = domain, status = ''Error: API request failed'',
      blocked = Bool False, error = True\<rparr>"

definition domain_result :: "jsval \<Rightarrow> string \<Rightarrow> DomainCheckResult" where
  \<comment> \<open>the function mapped over \<open>domains\<close>; nothing in its \<open>try\<close> block can throw\<close>
  "domain_result data domain =
     (let result = get_prop data domain in
      if \<not> truthy result \<or> \<not> typeof_object result
      then \<lparr>originalUrl = domain, status = ''Error: Invalid response'',
            blocked = Bool False, error = True\<rparr>
      else \<lparr>originalUrl = domain,
            status = (if truthy (get_prop result ''blocked'') then ''Blocked'' else ''Not Blocked''),
            blocked = get_prop result ''blocked'', error = False\<rparr>)"

definition checkBatch :: "(string \<Rightarrow> fetch_result) \<Rightarrow> string list \<Rightarrow> DomainCheckResult list" where
  "checkBatch fetch domains =
     (case fetch (join_commas domains) of
        NetworkError \<Rightarrow> map api_request_failed domains
      | HttpResponse ok body \<Rightarrow>
          if \<not> ok then map api_request_failed domains
          else (case body of
                  None \<Rightarrow> map api_request_failed domains
                | Some data \<Rightarrow>
                    if \<not> truthy data \<or> \<not> typeof_object data
                    then map api_request_failed domains
                    else map (domain_result data) domains))"

text \<open>
  The local variables of the batch loop of the handler. The last three are \<open>blocked\<close>,
  \<open>notBlocked\<close> and \<open>errors\<close> in the source.
\<close>

record Tally =
  results :: "DomainCheckResult list"
  processed :: int
  n_blocked :: int
  n_notBlocked :: int
  n_errors :: int

definition count_result :: "Tally \<Rightarrow> DomainCheckResult \<Rightarrow> Tally" where
  "count_result st r =
     (let st' = st\<lparr>processed := processed st + 1\<rparr> in
      if error r then st'\<lparr>n_errors := n_errors st' + 1\<rparr>
      else if truthy (blocked r) then st'\<lparr>n_blocked := n_blocked st' + 1\<rparr>
      else st'\<lparr>n_notBlocked := n_notBlocked st' + 1\<rparr>)"

definition batchSize :: nat where
  "batchSize = 30"

text \<open>
  The loop \<open>for (let i = 0; i < domains.length; i += batchSize)\<close>. The \<open>k\<close>-th batch is
  answered by \<open>fetch k\<close>, so the endpoint may answer equal batches differently.
\<close>

function processBatches ::
  "(nat \<Rightarrow> string \<Rightarrow> fetch_result) \<Rightarrow> string list \<Rightarrow> nat \<Rightarrow> Tally \<Rightarrow> Tally" where
  "processBatches fetch domains i st =
     (if i < length domains
      then let batch = take batchSize (drop i domains);
               batchResults = checkBatch (fetch (i div batchSize)) batch;
               st' = foldl count_result st batchResults
           in processBatches fetch domains (i + batchSize)
                (st'\<lparr>results := results st' @ batchResults\<rparr>)
      else st)"
  by pat_completeness auto
termination
  by (relation "measure (\<lambda>(fetch, domains, i, st). length domains - i)")
     (auto simp add: batchSize_def)

declare processBatches.simps [simp del]

definition empty_tally :: Tally where
  "empty_tally = \<lparr>results = [], processed = 0, n_blocked = 0, n_notBlocked = 0, n_errors = 0\<rparr>"

section \<open>The routes (src/index.ts)\<close>

datatype response = Response (http_status: nat) (json: jsval)

definition MAX_DOMAINS :: int where
  "MAX_DOMAINS = 1000"

definition WINDOW_MINUTES :: int where
  "WINDOW_MINUTES = 10"

definition MAX_DOMAINS_PER_REQUEST :: nat where
  "MAX_DOMAINS_PER_REQUEST = 100"

text \<open>
  The body of a POST /check request, as far as the handler looks at it: \<open>c.req.json()\<close>
  rejects or the body has no properties (\<open>BodyThrows\<close>), \<open>body.domains\<close> is falsy
  (\<open>DomainsFalsy\<close>), it is truthy and not an array (\<open>DomainsNotArray\<close>), or it is an array.
  The elements of the array are strings, as the type \<open>string[]\<close> of \<open>checkBatch\<close>
  declares.
\<close>

datatype check_body = BodyThrows | DomainsFalsy | DomainsNotArray | DomainsArray "string list"

definition client_ip :: "string option \<Rightarrow> string" where
  \<comment> \<open>\<open>c.req.header('CF-Connecting-IP') || 'unknown'\<close>\<close>
  "client_ip header = (case header of None \<Rightarrow> ''unknown'' | Some v \<Rightarrow> if v = [] then ''unknown'' else v)"

definition result_json :: "DomainCheckResult \<Rightarrow> jsval" where
  \<comment> \<open>a result as \<open>c.json\<close> serialises it: a property that is \<open>undefined\<close> is left out\<close>
  "result_json r =
     Obj ([(''originalUrl'', Str (originalUrl r)), (''status'', Str (status r))] @
          (if blocked r = Undefined then [] else [(''blocked'', blocked r)]) @
          [(''error'', Bool (error r))])"

definition error_json :: "string \<Rightarrow> jsval" where
  "error_json msg = Obj [(''error'', Str msg)]"

definition internal_server_error :: response where
  \<comment> \<open>\<open>app.onError\<close>\<close>
  "internal_server_error =
     Response 500 (Obj [(''message'', Str ''Internal Server Error''), (''status'', Num 500)])"

text \<open>
  The handler of POST /check. \<open>f_rate\<close> and \<open>now_rate\<close> are the faults and the clock of
  the call of \<open>checkRateLimit\<close>, \<open>f_stats\<close> and \<open>now_stats\<close> those of \<open>incrementStats\<close>.
  An exception before the \<open>try\<close> block reaches \<open>app.onError\<close>.
\<close>

definition check_handler ::
  "(nat \<Rightarrow> bool) \<Rightarrow> int \<Rightarrow> (nat \<Rightarrow> bool) \<Rightarrow> int \<Rightarrow> (nat \<Rightarrow> string \<Rightarrow> fetch_result)
     \<Rightarrow> check_body \<Rightarrow> string option \<Rightarrow> db \<Rightarrow> response \<times> db" where
  "check_handler f_rate now_rate f_stats now_stats fetch body header d =
     (case (case body of
              BodyThrows \<Rightarrow> Inl internal_server_error
            | DomainsFalsy \<Rightarrow> Inr []
            | DomainsNotArray \<Rightarrow>
                Inl (Response 400 (error_json ''Invalid request: domains must be an array''))
            | DomainsArray xs \<Rightarrow> Inr xs) of
        Inl r \<Rightarrow> (r, d)
      | Inr domains \<Rightarrow>
          if length domains > MAX_DOMAINS_PER_REQUEST
          then (Response 400 (error_json ''Maximum 100 domains per request''), d)
          else
            (case checkRateLimit f_rate (client_ip header) (int (length domains))
                    MAX_DOMAINS WINDOW_MINUTES now_rate d of
               (rateLimit, d1) \<Rightarrow>
                 if \<not> allowed rateLimit
                 then (Response 429
                         (Obj [(''error'', Str ''Rate limit exceeded''),
                               (''remaining'', Num (remaining rateLimit)),
                               (''resetTime'', Num (resetTime rateLimit))]), d1)
                 else
                   let st = processBatches fetch domains 0 empty_tally in
                   (case incrementStats f_stats
                           \<lparr>requests = Some 1, domainsChecked = Some (processed st),
                            d_blocked = Some (n_blocked st), d_notBlocked = Some (n_notBlocked st),
                            d_errors = Some (n_errors st)\<rparr> now_stats d1 of
                      (Inl e, d2) \<Rightarrow> (Response 500 (error_json ''Internal server error''), d2)
                    | (Inr u, d2) \<Rightarrow>
                        (Response 200
                           (Obj [(''results'', Arr (map result_json (results st))),
                                 (''remaining'', Num (remaining rateLimit)),
                                 (''resetTime'', Num (resetTime rateLimit))]), d2))))"

text \<open>
  A POST /check request through the middleware chain: the database middleware, the
  statistics middleware, the handler. \<open>faults k\<close> and \<open>clock k\<close> are the faults and the
  clock of the \<open>k\<close>-th store function that the request calls: 0 \<open>initializeTables\<close>,
  1 \<open>incrementStats\<close> of the middleware, 2 \<open>checkRateLimit\<close>, 3 \<open>incrementStats\<close> of the
  handler. The 500 response of the database middleware also carries the driver's
  message as \<open>details\<close>, which the model leaves out.
\<close>

definition post_check ::
  "(nat \<Rightarrow> nat \<Rightarrow> bool) \<Rightarrow> (nat \<Rightarrow> int) \<Rightarrow> (nat \<Rightarrow> string \<Rightarrow> fetch_result)
     \<Rightarrow> check_body \<Rightarrow> string option \<Rightarrow> db \<Rightarrow> response \<times> db" where
  "post_check faults clock fetch body header d =
     (case initializeTables (faults 0) (clock 0) d of
        (Inl e, d0) \<Rightarrow> (Response 500 (error_json ''Database error''), d0)
      | (Inr u, d0) \<Rightarrow>
          (case incrementStats (faults 1)
                  \<lparr>requests = Some 1, domainsChecked = None, d_blocked = None,
                   d_notBlocked = None, d_errors = None\<rparr> (clock 1) d0 of
             (r, d1) \<Rightarrow> check_handler (faults 2) (clock 2) (faults 3) (clock 3) fetch body header d1))"

text \<open>
  The handler of GET /stats/data. \<open>parse\<close> is \<open>JSON.parse\<close>, \<open>None\<close> when it throws.
  The 500 response also carries the message as \<open>details\<close>.
\<close>

definition stats_data ::
  "(string \<Rightarrow> jsval option) \<Rightarrow> (nat \<Rightarrow> bool) \<Rightarrow> int \<Rightarrow> int \<Rightarrow> db \<Rightarrow> response \<times> db" where
  "stats_data parse fails now now' d =
     (case getStats fails now now' d of
        (Inl e, d') \<Rightarrow> (Response 500 (error_json ''Failed to get stats''), d')
      | (Inr s, d') \<Rightarrow>
          (case parse (unique_users s) of
             None \<Rightarrow> (Response 500 (error_json ''Failed to get stats''), d')
           | Some users \<Rightarrow>
               (Response 200
                  (Obj [(''totalRequests'', Num (total_requests s)),
                        (''totalDomainsChecked'', Num (total_domains_checked s)),
                        (''blockedDomains'', Num (blocked_domains s)),
                        (''notBlockedDomains'', Num (not_blocked_domains s)),
                        (''errorDomains'', Num (error_domains s)),
                        (''lastReset'', Num (last_reset s)),
                        (''uniqueUsers'', users)]), d')))"

definition get_stats_data ::
  "(string \<Rightarrow> jsval option) \<Rightarrow> (nat \<Rightarrow> nat \<Rightarrow> bool) \<Rightarrow> (nat \<Rightarrow> int) \<Rightarrow> db \<Rightarrow> response \<times> db" where
  \<comment> \<open>GET /stats/data through the database middleware; the clock of \<open>getStats\<close> is read twice\<close>
  "get_stats_data parse faults clock d =
     (case initializeTables (faults 0) (clock 0) d of
        (Inl e, d0) \<Rightarrow> (Response 500 (error_json ''Database error''), d0)
      | (Inr u, d0) \<Rightarrow> stats_data parse (faults 1) (clock 1) (clock 2) d0)"

section \<open>The states the store can reach\<close>

text \<open>
  The database starts without tables and is changed only by the functions of db.ts.
  \<open>reachable maxDomains\<close> holds for the states reached when every call of
  \<open>checkRateLimit\<close> is given the same \<open>maxDomains\<close>.
\<close>

definition fresh_db :: db where
  "fresh_db = \<lparr>stats = None, rate_limits = None\<rparr>"

inductive reachable :: "int \<Rightarrow> db \<Rightarrow> bool" for maxDomains :: int where
  fresh: "reachable maxDomains fresh_db"
| tables: "reachable maxDomains d \<Longrightarrow> reachable maxDomains (snd (initializeTables fails now d))"
| get: "reachable maxDomains d \<Longrightarrow> reachable maxDomains (snd (getStats fails now now' d))"
| increment: "reachable maxDomains d \<Longrightarrow> reachable maxDomains (snd (incrementStats fails s now d))"
| rate: "reachable maxDomains d \<Longrightarrow>
         reachable maxDomains (snd (checkRateLimit fails ip domainCount maxDomains windowMinutes now d))"

section \<open>The key-value variant of the application\<close>

text \<open>
  The repository also holds a second, self-contained version of the application that
  keeps its state in two Workers KV namespaces and in two module-level caches instead
  of the SQL database. The parts of it that the properties below compare with are
  modelled here: its rate limiter, the guards at the head of its POST /check handler
  and its GET /stats/data handler. A cache entry has the two fields of a \<open>rate_limits\<close>
  row. The value under the key \<open>global_stats\<close> is held as text in the source and as
  the record it serialises here; the expiry of KV entries and failures of the KV
  namespaces are not modelled.
\<close>

record StatsData =
  totalRequests :: int
  totalDomainsChecked :: int
  uniqueUsers :: "string list"
  blockedDomains :: int
  notBlockedDomains :: int
  errorDomains :: int
  lastReset :: int

record kv_state =
  statsCache :: "StatsData option"
  rateLimitCache :: "string \<rightharpoonup> RateLimit"
  STATS_STORE :: "StatsData option"
  RATE_LIMIT_STORE :: "string \<rightharpoonup> RateLimit"

definition put_usage :: "string \<Rightarrow> RateLimit \<Rightarrow> kv_state \<Rightarrow> kv_state" where
  \<comment> \<open>\<open>rateLimitCache[key] = usage\<close> and \<open>RATE_LIMIT_STORE.put(key, ...)\<close>\<close>
  "put_usage key usage st =
     st\<lparr>rateLimitCache := (rateLimitCache st)(key \<mapsto> usage),
        RATE_LIMIT_STORE := (RATE_LIMIT_STORE st)(key \<mapsto> usage)\<rparr>"

definition start_window_kv :: "string \<Rightarrow> int \<Rightarrow> int \<Rightarrow> kv_state \<Rightarrow> RateLimitResult \<times> kv_state" where
  \<comment> \<open>the branch taken when \<open>!usage || usage.timestamp < windowStart\<close>\<close>
  "start_window_kv key domainCount now st =
     (\<lparr>allowed = (domainCount \<le> MAX_DOMAINS), remaining = MAX_DOMAINS - domainCount,
       resetTime = now + WINDOW_MINUTES * 60 * 1000\<rparr>,
      put_usage key \<lparr>count = domainCount, timestamp = now\<rparr> st)"

definition checkRateLimit_kv ::
  "string \<Rightarrow> int \<Rightarrow> int \<Rightarrow> kv_state \<Rightarrow> RateLimitResult \<times> kv_state" where
  "checkRateLimit_kv ip domainCount now st =
     (let key = ''rate_limit:'' @ ip;
          windowStart = now - WINDOW_MINUTES * 60 * 1000
      in case rateLimitCache st key of
           None \<Rightarrow> start_window_kv key domainCount now st
         | Some u \<Rightarrow>
             if timestamp u < windowStart then start_window_kv key domainCount now st
             else
               let totalCount = count u + domainCount in
               if totalCount > MAX_DOMAINS
               then (\<lparr>allowed = False, remaining = MAX_DOMAINS - count u,
                      resetTime = timestamp u + WINDOW_MINUTES * 60 * 1000\<rparr>, st)
               else (\<lparr>allowed = True, remaining = MAX_DOMAINS - totalCount,
                      resetTime = timestamp u + WINDOW_MINUTES * 60 * 1000\<rparr>,
                     put_usage key \<lparr>count = totalCount, timestamp = timestamp u\<rparr> st))"

definition check_guards_kv :: "check_body \<Rightarrow> response option" where
  \<comment> \<open>the guards before the handler reads the client address; \<open>None\<close>: the handler goes on.
      An exception of \<open>c.req.json()\<close> is caught by the handler's own \<open>try\<close> block.\<close>
  "check_guards_kv body =
     (case body of
        BodyThrows \<Rightarrow> Some (Response 500 (error_json ''Failed to process domains''))
      | DomainsFalsy \<Rightarrow> Some (Response 400 (error_json ''Invalid domains format''))
      | DomainsNotArray \<Rightarrow> Some (Response 400 (error_json ''Invalid domains format''))
      | DomainsArray domains \<Rightarrow>
          if length domains = 0 then Some (Response 400 (error_json ''No domains provided''))
          else None)"

definition initializeStats :: "int \<Rightarrow> kv_state \<Rightarrow> StatsData \<times> kv_state" where
  "initializeStats now st =
     (case statsCache st of
        Some cached \<Rightarrow> (cached, st)
      | None \<Rightarrow>
          (case STATS_STORE st of
             None \<Rightarrow>
               (let initialStats =
                      \<lparr>totalRequests = 0, totalDomainsChecked = 0, uniqueUsers = [],
                       blockedDomains = 0, notBlockedDomains = 0, errorDomains = 0,
                       lastReset = now\<rparr>
                in (initialStats, st\<lparr>STATS_STORE := Some initialStats, statsCache := Some initialStats\<rparr>))
           | Some stored \<Rightarrow> (stored, st\<lparr>statsCache := Some stored\<rparr>)))"

definition stats_data_kv :: "int \<Rightarrow> kv_state \<Rightarrow> response \<times> kv_state" where
  "stats_data_kv now st =
     (case initializeStats now st of
        (s, st') \<Rightarrow>
          (Response 200
             (Obj [(''totalRequests'', Num (totalRequests s)),
                   (''totalDomainsChecked'', Num (totalDomainsChecked s)),
                   (''uniqueUsers'', Num (int (length (uniqueUsers s)))),
                   (''blockedDomains'', Num (blockedDomains s)),
                   (''notBlockedDomains'', Num (notBlockedDomains s)),
                   (''errorDomains'', Num (errorDomains s)),
                   (''lastReset'', Num (lastReset s)),
                   (''rateLimit'', Obj [(''max'', Num MAX_DOMAINS), (''window'', Num WINDOW_MINUTES)])]),
           st'))"

definition fresh_kv :: kv_state where
  "fresh_kv = \<lparr>statsCache = None, rateLimitCache = Map.empty, STATS_STORE = None,
               RATE_LIMIT_STORE = Map.empty\<rparr>"

section \<open>Environments for concrete runs\<close>

definition never_fails :: "nat \<Rightarrow> nat \<Rightarrow> bool" where
  \<comment> \<open>no statement of any store function of the request throws\<close>
  "never_fails k site = False"

definition steady_clock :: "int \<Rightarrow> nat \<Rightarrow> int" where
  \<comment> \<open>the \<open>k\<close>-th store function reads the clock \<open>k\<close> milliseconds after \<open>t\<close>\<close>
  "steady_clock t k = t + int k"

definition mock_api :: "nat \<Rightarrow> string \<Rightarrow> fetch_result" where
  "mock_api k query =
     HttpResponse True
       (Some (Obj [(''good.com'', Obj [(''blocked'', Bool False)]),
                   (''bad.com'', Obj [(''blocked'', Bool True)])]))"

definition api_down :: "nat \<Rightarrow> string \<Rightarrow> fetch_result" where
  "api_down k query = NetworkError"

definition select_fails :: "nat \<Rightarrow> bool" where
  \<comment> \<open>the second statement of the function throws, the others run\<close>
  "select_fails site = (site = 1)"

text \<open>
  A client that opens a window with 5 domains at time 1000 and tops it up with 3 more
  at time 2000; the limit is 1000 domains in 10 minutes.
\<close>

definition window_opened :: db where
  "window_opened =
     snd (checkRateLimit no_faults ''1.2.3.4'' 5 1000 10 1000
            \<lparr>stats = None, rate_limits = Some Map.empty\<rparr>)"

definition window_topped_up :: db where
  "window_topped_up = snd (checkRateLimit no_faults ''1.2.3.4'' 3 1000 10 2000 window_opened)"

definition update_fails3 :: "nat \<Rightarrow> bool" where
  \<comment> \<open>the UPDATE of \<open>checkRateLimit\<close> throws, the statements before it run\<close>
  "update_fails3 site = (site = 3)"


section \<open>States named in the properties\<close>

text \<open>The store after the DELETE of \<open>checkRateLimit\<close> has run.\<close>

definition purged :: "int \<Rightarrow> db \<Rightarrow> db" where
  "purged windowStart d =
     d\<lparr>rate_limits := map_option (delete_expired windowStart) (rate_limits d)\<rparr>"

text \<open>
  A store on which \<open>initializeTables\<close> has run: both tables exist and the \<open>stats\<close>
  table has the row with id \<open>global\<close>, whatever the requests served since have made
  of its counters and of the rate-limit entries.
\<close>

definition initialised :: "db \<Rightarrow> bool" where
  "initialised d =
     (case stats d of
        None \<Rightarrow> False
      | Some t \<Rightarrow>
          (case t ''global'' of
             None \<Rightarrow> False
           | Some row \<Rightarrow> (case rate_limits d of None \<Rightarrow> False | Some r \<Rightarrow> True)))"

section \<open>Properties of the rate limiter\<close>

lemmas io_defs = ret_def andThen_def execute_def

lemmas rate_sql_defs =
  delete_old_rate_limits_def select_rate_limit_def insert_rate_limit_def update_rate_limit_def

lemmas stats_sql_defs =
  create_stats_table_def create_rate_limits_table_def select_global_stats_def
  insert_default_stats_def update_stats_def

lemma delete_expired_keeps:
  "t ip = Some u \<Longrightarrow> \<not> timestamp u < windowStart \<Longrightarrow> delete_expired windowStart t ip = Some u"
  by (simp add: delete_expired_def)

text \<open>
  C1, as stated: when the client has an entry and \<open>entry.count + domainCount\<close> does not
  exceed \<open>maxDomains\<close>, the entry's count becomes the total and its timestamp is left
  as it was. The UPDATE statement sets \<open>timestamp = now\<close>: a client with the entry
  (5, 1000) that asks for 3 more domains at time 2000 is left with the entry (8, 2000),
  not (8, 1000).
\<close>

theorem checkRateLimit_topup_timestamp_counterexample:
  "entry_of \<lparr>stats = None, rate_limits = Some [''1.2.3.4'' \<mapsto> \<lparr>count = 5, timestamp = 1000\<rparr>]\<rparr>
     ''1.2.3.4'' = Some \<lparr>count = 5, timestamp = 1000\<rparr>
   \<and> (5::int) + 3 \<le> 1000
   \<and> entry_of (snd (checkRateLimit no_faults ''1.2.3.4'' 3 1000 10 2000
        \<lparr>stats = None, rate_limits = Some [''1.2.3.4'' \<mapsto> \<lparr>count = 5, timestamp = 1000\<rparr>]\<rparr>))
     ''1.2.3.4'' = Some \<lparr>count = 8, timestamp = 2000\<rparr>
   \<and> entry_of (snd (checkRateLimit no_faults ''1.2.3.4'' 3 1000 10 2000
        \<lparr>stats = None, rate_limits = Some [''1.2.3.4'' \<mapsto> \<lparr>count = 5, timestamp = 1000\<rparr>]\<rparr>))
     ''1.2.3.4'' \<noteq> Some \<lparr>count = 8, timestamp = 1000\<rparr>"
  by (simp add: checkRateLimit_def checkRateLimit_try_def io_defs rate_sql_defs
      delete_expired_def no_faults_def entry_of_def Let_def)

text \<open>
  C1, amended: when the client has an entry \<open>u\<close> that the purge keeps, \<open>count u +
  domainCount\<close> does not exceed \<open>maxDomains\<close> and the three statements run, the entry
  becomes (\<open>count u + domainCount\<close>, \<open>now\<close>): the count is the total and the timestamp
  is moved to the time of this call. The call returns \<open>allowed = true\<close>, \<open>remaining =
  maxDomains - total\<close> and \<open>resetTime = now + window\<close>. Nothing else changes but the
  purge of expired entries.
\<close>

theorem checkRateLimit_topup_accept:
  assumes "rate_limits d = Some t" and "t ip = Some u"
    and "\<not> timestamp u < now - windowMinutes * 60 * 1000"
    and "count u + domainCount \<le> maxDomains"
    and "\<not> fails 0" and "\<not> fails 1" and "\<not> fails 3"
  shows "checkRateLimit fails ip domainCount maxDomains windowMinutes now d =
     (\<lparr>allowed = True, remaining = maxDomains - (count u + domainCount),
       resetTime = now + windowMinutes * 60 * 1000\<rparr>,
      d\<lparr>rate_limits := Some ((delete_expired (now - windowMinutes * 60 * 1000) t)
            (ip \<mapsto> \<lparr>count = count u + domainCount, timestamp = now\<rparr>))\<rparr>)"
  using assms
  by (simp add: checkRateLimit_def checkRateLimit_try_def io_defs rate_sql_defs
      delete_expired_keeps Let_def)

theorem checkRateLimit_topup_accept_witness:
  "checkRateLimit no_faults ''1.2.3.4'' 3 1000 10 2000
     \<lparr>stats = None, rate_limits = Some [''1.2.3.4'' \<mapsto> \<lparr>count = 5, timestamp = 1000\<rparr>]\<rparr> =
   (\<lparr>allowed = True, remaining = 992, resetTime = 602000\<rparr>,
    \<lparr>stats = None,
     rate_limits = Some ((delete_expired (- 598000) [''1.2.3.4'' \<mapsto> \<lparr>count = 5, timestamp = 1000\<rparr>])
        (''1.2.3.4'' \<mapsto> \<lparr>count = 8, timestamp = 2000\<rparr>))\<rparr>)"
  using checkRateLimit_topup_accept
    [where d = "\<lparr>stats = None, rate_limits = Some [''1.2.3.4'' \<mapsto> \<lparr>count = 5, timestamp = 1000\<rparr>]\<rparr>"
       and t = "[''1.2.3.4'' \<mapsto> \<lparr>count = 5, timestamp = 1000\<rparr>]" and ip = "''1.2.3.4''"
       and u = "\<lparr>count = 5, timestamp = 1000\<rparr>" and now = 2000 and windowMinutes = 10
       and domainCount = 3 and maxDomains = 1000 and fails = no_faults]
  by (simp add: no_faults_def)

text \<open>
  The key-value variant treats the same case differently: it keeps the timestamp of the
  entry and returns a reset time counted from that timestamp, not from \<open>now\<close>.
\<close>

lemma checkRateLimit_kv_topup_accept:
  assumes "rateLimitCache st (''rate_limit:'' @ ip) = Some u"
    and "\<not> timestamp u < now - WINDOW_MINUTES * 60 * 1000"
    and "count u + domainCount \<le> MAX_DOMAINS"
  shows "checkRateLimit_kv ip domainCount now st =
     (\<lparr>allowed = True, remaining = MAX_DOMAINS - (count u + domainCount),
       resetTime = timestamp u + WINDOW_MINUTES * 60 * 1000\<rparr>,
      put_usage (''rate_limit:'' @ ip)
        \<lparr>count = count u + domainCount, timestamp = timestamp u\<rparr> st)"
  using assms by (simp add: checkRateLimit_kv_def Let_def)

lemmas window_defs =
  window_opened_def window_topped_up_def checkRateLimit_def checkRateLimit_try_def
  io_defs rate_sql_defs delete_expired_def no_faults_def entry_of_def Let_def

text \<open>
  C5, as stated: the reset time of a rejected top-up is anchored to the start of the
  original window. The reset time is counted from the timestamp stored in the entry,
  and an accepted top-up has moved that timestamp: the client whose window opened at
  1000 and was topped up at 2000 is told, when rejected at 3000, that the limit resets
  at 2000 + window = 602000, not at 1000 + window = 601000.
\<close>

theorem checkRateLimit_reject_anchor_counterexample:
  "entry_of window_opened ''1.2.3.4'' = Some \<lparr>count = 5, timestamp = 1000\<rparr>
   \<and> entry_of window_topped_up ''1.2.3.4'' = Some \<lparr>count = 8, timestamp = 2000\<rparr>
   \<and> (8::int) + 995 > 1000
   \<and> fst (checkRateLimit no_faults ''1.2.3.4'' 995 1000 10 3000 window_topped_up) =
       \<lparr>allowed = False, remaining = 992, resetTime = 602000\<rparr>
   \<and> resetTime (fst (checkRateLimit no_faults ''1.2.3.4'' 995 1000 10 3000 window_topped_up))
       \<noteq> 1000 + 10 * 60 * 1000"
  by (simp add: window_defs)

text \<open>
  Every accepted request leaves the entry of the client with the time of that request
  as its timestamp, whether it opened the window or topped it up.
\<close>

lemma checkRateLimit_accept_stamps_now:
  assumes "checkRateLimit_try fails ip domainCount maxDomains windowMinutes now d = (Inr r, d')"
    and "allowed r"
  shows "\<exists>c. entry_of d' ip = Some \<lparr>count = c, timestamp = now\<rparr>"
  using assms
  by (auto simp add: checkRateLimit_try_def io_defs rate_sql_defs entry_of_def Let_def
      split: option.splits if_splits)

text \<open>
  C5, amended: when the client has an entry \<open>u\<close> that the purge keeps and \<open>count u +
  domainCount\<close> exceeds \<open>maxDomains\<close>, the call returns \<open>allowed = false\<close>, \<open>remaining =
  maxDomains - count u\<close> and \<open>resetTime = timestamp u + window\<close>, counted from the
  timestamp that the entry holds at this call; the entry of the client is the same
  afterwards, and the store differs from the one before the call only by the purge of
  expired entries.
\<close>

theorem checkRateLimit_topup_reject:
  assumes "rate_limits d = Some t" and "t ip = Some u"
    and "\<not> timestamp u < now - windowMinutes * 60 * 1000"
    and "count u + domainCount > maxDomains"
    and "\<not> fails 0" and "\<not> fails 1"
  shows "fst (checkRateLimit fails ip domainCount maxDomains windowMinutes now d) =
           \<lparr>allowed = False, remaining = maxDomains - count u,
            resetTime = timestamp u + windowMinutes * 60 * 1000\<rparr>
         \<and> entry_of (snd (checkRateLimit fails ip domainCount maxDomains windowMinutes now d)) ip
             = Some u
         \<and> snd (checkRateLimit fails ip domainCount maxDomains windowMinutes now d) =
             d\<lparr>rate_limits := Some (delete_expired (now - windowMinutes * 60 * 1000) t)\<rparr>"
  using assms
  by (simp add: checkRateLimit_def checkRateLimit_try_def io_defs rate_sql_defs
      delete_expired_keeps entry_of_def Let_def)

theorem checkRateLimit_topup_reject_witness:
  "fst (checkRateLimit no_faults ''1.2.3.4'' 995 1000 10 3000 window_topped_up) =
     \<lparr>allowed = False, remaining = 992, resetTime = 602000\<rparr>
   \<and> entry_of (snd (checkRateLimit no_faults ''1.2.3.4'' 995 1000 10 3000 window_topped_up))
      ''1.2.3.4'' = Some \<lparr>count = 8, timestamp = 2000\<rparr>"
proof -
  have "entry_of window_topped_up ''1.2.3.4'' = Some \<lparr>count = 8, timestamp = 2000\<rparr>"
    by (simp add: window_defs)
  then obtain t where t: "rate_limits window_topped_up = Some t"
    and u: "t ''1.2.3.4'' = Some \<lparr>count = 8, timestamp = 2000\<rparr>"
    by (auto simp add: entry_of_def split: option.splits)
  have kept: "\<not> timestamp \<lparr>count = 8, timestamp = 2000\<rparr> < 3000 - 10 * 60 * 1000"
    by simp
  have over: "count \<lparr>count = 8, timestamp = 2000\<rparr> + 995 > 1000"
    by simp
  have run: "\<not> no_faults 0" "\<not> no_faults 1"
    by (simp_all add: no_faults_def)
  note reject = checkRateLimit_topup_reject [OF t u kept over run]
  have result: "fst (checkRateLimit no_faults ''1.2.3.4'' 995 1000 10 3000 window_topped_up) =
     \<lparr>allowed = False, remaining = 992, resetTime = 602000\<rparr>"
    using reject by simp
  have entry: "entry_of (snd (checkRateLimit no_faults ''1.2.3.4'' 995 1000 10 3000
      window_topped_up)) ''1.2.3.4'' = Some \<lparr>count = 8, timestamp = 2000\<rparr>"
    using reject by blast
  show ?thesis
    using result entry by blast
qed

text \<open>
  The \<open>try\<close> block of \<open>checkRateLimit\<close> throws exactly when the table is missing or a
  statement that the call reaches fails.
\<close>

lemma checkRateLimit_try_throws_iff:
  "(\<exists>e. fst (checkRateLimit_try fails ip domainCount maxDomains windowMinutes now d) = Inl e) \<longleftrightarrow>
   (case rate_limits d of
      None \<Rightarrow> True
    | Some t \<Rightarrow>
        fails 0 \<or> fails 1 \<or>
        (case delete_expired (now - windowMinutes * 60 * 1000) t ip of
           None \<Rightarrow> domainCount \<le> maxDomains \<and> fails 2
         | Some u \<Rightarrow> count u + domainCount \<le> maxDomains \<and> fails 3))"
  by (auto simp add: checkRateLimit_try_def io_defs rate_sql_defs Let_def split: option.splits)

text \<open>The \<open>catch\<close> block: whatever the \<open>try\<close> block throws, the request is allowed.\<close>

lemma checkRateLimit_catch:
  assumes "fst (checkRateLimit_try fails ip domainCount maxDomains windowMinutes now d) = Inl e"
  shows "fst (checkRateLimit fails ip domainCount maxDomains windowMinutes now d) =
     \<lparr>allowed = True, remaining = maxDomains - domainCount,
      resetTime = now + windowMinutes * 60 * 1000\<rparr>"
  using assms
  by (cases "checkRateLimit_try fails ip domainCount maxDomains windowMinutes now d")
     (auto simp add: checkRateLimit_def)

text \<open>
  C6: if a store operation of the call fails, the call returns \<open>allowed = true\<close>,
  \<open>remaining = maxDomains - domainCount\<close> and \<open>resetTime = now + window\<close>. The
  operations are the DELETE (which also fails when the table is missing), the SELECT,
  the INSERT, which runs when the client has no entry after the purge and asks for at
  most \<open>maxDomains\<close>, and the UPDATE, which runs when the client has an entry after the
  purge and the total is at most \<open>maxDomains\<close>. The store is left as it was when the
  DELETE failed, and purged of expired entries when a later operation failed; nothing
  is written for the client.
\<close>

theorem checkRateLimit_fails_open:
  assumes "rate_limits d = None \<or> fails 0 \<or> fails 1
     \<or> (entry_of (purged (now - windowMinutes * 60 * 1000) d) ip = None
          \<and> domainCount \<le> maxDomains \<and> fails 2)
     \<or> (\<exists>u. entry_of (purged (now - windowMinutes * 60 * 1000) d) ip = Some u
          \<and> count u + domainCount \<le> maxDomains \<and> fails 3)"
  shows "checkRateLimit fails ip domainCount maxDomains windowMinutes now d =
     (\<lparr>allowed = True, remaining = maxDomains - domainCount,
       resetTime = now + windowMinutes * 60 * 1000\<rparr>,
      if rate_limits d = None \<or> fails 0 then d
      else purged (now - windowMinutes * 60 * 1000) d)"
  using assms
  by (auto simp add: checkRateLimit_def checkRateLimit_try_def io_defs rate_sql_defs
      purged_def entry_of_def Let_def split: option.splits)

theorem checkRateLimit_fails_open_witness:
  "checkRateLimit update_fails3 ''1.2.3.4'' 3 1000 10 2000 window_opened =
     (\<lparr>allowed = True, remaining = 997, resetTime = 602000\<rparr>, purged (- 598000) window_opened)
   \<and> entry_of (purged (- 598000) window_opened) ''1.2.3.4''
       = Some \<lparr>count = 5, timestamp = 1000\<rparr>"
proof -
  have e: "entry_of (purged (2000 - 10 * 60 * 1000) window_opened) ''1.2.3.4''
             = Some \<lparr>count = 5, timestamp = 1000\<rparr>"
    by (simp add: purged_def window_defs)
  have table: "rate_limits window_opened \<noteq> None"
    by (simp add: window_defs)
  have faults: "update_fails3 3" "\<not> update_fails3 0"
    by (simp_all add: update_fails3_def)
  have "rate_limits window_opened = None \<or> update_fails3 0 \<or> update_fails3 1
     \<or> (entry_of (purged (2000 - 10 * 60 * 1000) window_opened) ''1.2.3.4'' = None
          \<and> (3::int) \<le> 1000 \<and> update_fails3 2)
     \<or> (\<exists>u. entry_of (purged (2000 - 10 * 60 * 1000) window_opened) ''1.2.3.4'' = Some u
          \<and> count u + 3 \<le> 1000 \<and> update_fails3 3)"
    using e faults by simp
  from checkRateLimit_fails_open [OF this] show ?thesis
    using e table faults by simp
qed

text \<open>A failing SELECT on a request that would have been rejected is allowed as well.\<close>

lemma checkRateLimit_select_failure_allows:
  "fst (checkRateLimit select_fails ''1.2.3.4'' 996 1000 10 2000 window_opened) =
     \<lparr>allowed = True, remaining = 4, resetTime = 602000\<rparr>"
  by (simp add: select_fails_def window_defs)

text \<open>
  Only \<open>checkRateLimit\<close> writes rate-limit entries; an entry found after a call was there
  before, or the call wrote it with a count of at most \<open>maxDomains\<close>.
\<close>

lemma entry_of_initializeTables:
  "entry_of (snd (initializeTables fails now d)) ip = Some e \<Longrightarrow> entry_of d ip = Some e"
  by (auto simp add: entry_of_def initializeTables_def io_defs stats_sql_defs
      split: option.splits if_splits)

lemma entry_of_getStats:
  "entry_of (snd (getStats fails now now' d)) ip = Some e \<Longrightarrow> entry_of d ip = Some e"
  by (auto simp add: entry_of_def getStats_def io_defs stats_sql_defs
      split: option.splits if_splits)

lemma entry_of_incrementStats:
  "entry_of (snd (incrementStats fails s now d)) ip = Some e \<Longrightarrow> entry_of d ip = Some e"
  by (auto simp add: entry_of_def incrementStats_def io_defs stats_sql_defs Let_def
      split: option.splits if_splits)

lemma entry_of_checkRateLimit:
  "entry_of (snd (checkRateLimit fails ip domainCount maxDomains windowMinutes now d)) ip' = Some e
   \<Longrightarrow> entry_of d ip' = Some e \<or> count e \<le> maxDomains"
  by (auto simp add: entry_of_def checkRateLimit_def checkRateLimit_try_def io_defs rate_sql_defs
      delete_expired_def Let_def split: option.splits if_splits)

lemma reachable_count_bounded:
  "reachable maxDomains d \<Longrightarrow> entry_of d ip = Some e \<Longrightarrow> count e \<le> maxDomains"
proof (induction arbitrary: ip e rule: reachable.induct)
  case fresh
  then show ?case by (simp add: fresh_db_def entry_of_def)
next
  case (tables d fails now)
  then show ?case using entry_of_initializeTables by blast
next
  case (get d fails now now')
  then show ?case using entry_of_getStats by blast
next
  case (increment d fails s now)
  then show ?case using entry_of_incrementStats by blast
next
  case (rate d fails ip' domainCount windowMinutes now)
  then show ?case using entry_of_checkRateLimit by blast
qed

lemma remaining_nonnegative:
  assumes "\<And>e. entry_of d ip = Some e \<Longrightarrow> count e \<le> maxDomains"
    and "domainCount \<le> maxDomains"
  shows "0 \<le> remaining (fst (checkRateLimit fails ip domainCount maxDomains windowMinutes now d))"
  using assms
  by (auto simp add: entry_of_def checkRateLimit_def checkRateLimit_try_def io_defs rate_sql_defs
      delete_expired_def Let_def split: option.splits if_splits)

text \<open>
  C10: in every state that the store reaches from the empty database through the
  functions of db.ts, with one \<open>maxDomains\<close> for all calls of \<open>checkRateLimit\<close>, every
  rate-limit entry has a count of at most \<open>maxDomains\<close>; and every call in such a state
  with \<open>domainCount \<le> maxDomains\<close> returns \<open>remaining \<ge> 0\<close>, whichever branch it takes
  and whichever statements fail.
\<close>

theorem checkRateLimit_counts_bounded:
  assumes "reachable maxDomains d"
  shows "(\<forall>ip e. entry_of d ip = Some e \<longrightarrow> count e \<le> maxDomains)
       \<and> (\<forall>fails ip domainCount windowMinutes now.
             domainCount \<le> maxDomains \<longrightarrow>
             0 \<le> remaining (fst (checkRateLimit fails ip domainCount maxDomains windowMinutes now d)))"
  using assms reachable_count_bounded remaining_nonnegative by blast

theorem checkRateLimit_counts_bounded_witness:
  "reachable 1000 (snd (checkRateLimit no_faults ''1.2.3.4'' 5 1000 10 1000
       (snd (initializeTables no_faults 1000 fresh_db))))
   \<and> entry_of (snd (checkRateLimit no_faults ''1.2.3.4'' 5 1000 10 1000
       (snd (initializeTables no_faults 1000 fresh_db)))) ''1.2.3.4''
       = Some \<lparr>count = 5, timestamp = 1000\<rparr>
   \<and> (5::int) \<le> 1000
   \<and> 0 \<le> remaining (fst (checkRateLimit no_faults ''1.2.3.4'' 996 1000 10 2000
       (snd (checkRateLimit no_faults ''1.2.3.4'' 5 1000 10 1000
          (snd (initializeTables no_faults 1000 fresh_db))))))"
proof -
  have r: "reachable 1000 (snd (checkRateLimit no_faults ''1.2.3.4'' 5 1000 10 1000
       (snd (initializeTables no_faults 1000 fresh_db))))"
    by (intro reachable.rate reachable.tables reachable.fresh)
  have e: "entry_of (snd (checkRateLimit no_faults ''1.2.3.4'' 5 1000 10 1000
       (snd (initializeTables no_faults 1000 fresh_db)))) ''1.2.3.4''
       = Some \<lparr>count = 5, timestamp = 1000\<rparr>"
    by (simp add: checkRateLimit_def checkRateLimit_try_def initializeTables_def io_defs
        rate_sql_defs stats_sql_defs delete_expired_def no_faults_def fresh_db_def entry_of_def
        Let_def)
  show ?thesis
    using r e checkRateLimit_counts_bounded [OF r] by simp
qed

section \<open>Properties of the schema initialisation\<close>

lemma initializeTables_creates:
  assumes "initializeTables fails now d = (Inr u, d1)"
  shows "\<exists>t r row. stats d1 = Some t \<and> t ''global'' = Some row \<and> rate_limits d1 = Some r"
  using assms
  by (auto simp add: initializeTables_def io_defs stats_sql_defs split: option.splits if_splits)

lemma initializeTables_unchanged:
  assumes "stats d = Some t" and "t ''global'' = Some row" and "rate_limits d = Some r"
  shows "snd (initializeTables fails now d) = d"
  using assms
  by (auto simp add: initializeTables_def io_defs stats_sql_defs split: option.splits if_splits)

lemma initializeTables_runs_unchanged:
  assumes "stats d = Some t" and "t ''global'' = Some row" and "rate_limits d = Some r"
  shows "initializeTables_runs runs d = d"
proof (induction runs)
  case Nil
  show ?case by simp
next
  case (Cons run runs)
  obtain fails now where run: "run = (fails, now)" by (cases run)
  show ?case
    using Cons by (simp add: run initializeTables_unchanged [OF assms])
qed

text \<open>
  An existing statistics row is never written by the initialisation, whether or not
  the run completes.
\<close>

lemma initializeTables_keeps_stats:
  assumes "global_stats d = Some row"
  shows "stats (snd (initializeTables fails now d)) = stats d"
  using assms
  by (auto simp add: global_stats_def initializeTables_def io_defs stats_sql_defs
      split: option.splits if_splits)

text \<open>
  A completed run leaves an initialised store, and the other functions of db.ts keep
  a store initialised.
\<close>

lemma initializeTables_establishes:
  assumes "initializeTables fails now d = (Inr u, d1)"
  shows "initialised d1"
  using initializeTables_creates [OF assms] by (auto simp add: initialised_def)

lemma initialised_getStats: "initialised d \<Longrightarrow> initialised (snd (getStats fails now now' d))"
  by (auto simp add: initialised_def getStats_def io_defs stats_sql_defs
      split: option.splits if_splits)

lemma initialised_incrementStats:
  "initialised d \<Longrightarrow> initialised (snd (incrementStats fails s now d))"
  by (auto simp add: initialised_def incrementStats_def io_defs stats_sql_defs Let_def
      split: option.splits if_splits)

lemma initialised_checkRateLimit:
  "initialised d \<Longrightarrow>
   initialised (snd (checkRateLimit fails ip domainCount maxDomains windowMinutes now d))"
  by (auto simp add: initialised_def checkRateLimit_def checkRateLimit_try_def io_defs
      rate_sql_defs Let_def split: option.splits if_splits)

text \<open>
  C9: on a store where \<open>initializeTables\<close> already ran, whatever values the counters,
  the \<open>unique_users\<close> text and the rate-limit entries have by now, a further run leaves
  the whole store as it is, whatever its clock and whichever of its statements fail;
  so does any number of further runs; and a run whose statements do not fail
  completes. The store keeps its one row with id \<open>global\<close>, with every counter as it
  was.
\<close>

theorem initializeTables_idempotent:
  assumes "initialised d"
  shows "snd (initializeTables fails now d) = d
       \<and> initializeTables_runs runs d = d
       \<and> global_stats (snd (initializeTables fails now d)) = global_stats d
       \<and> global_stats d \<noteq> None
       \<and> (\<not> fails 0 \<and> \<not> fails 1 \<and> \<not> fails 3 \<longrightarrow> fst (initializeTables fails now d) = Inr ())"
proof -
  obtain t r row where shape: "stats d = Some t" "t ''global'' = Some row" "rate_limits d = Some r"
    using assms by (auto simp add: initialised_def split: option.splits)
  have fixed: "snd (initializeTables fails now d) = d"
    using initializeTables_unchanged [OF shape] .
  have runs: "initializeTables_runs runs d = d"
    using initializeTables_runs_unchanged [OF shape] .
  have row: "global_stats d \<noteq> None"
    using shape by (simp add: global_stats_def)
  have completes: "\<not> fails 0 \<and> \<not> fails 1 \<and> \<not> fails 3 \<longrightarrow> fst (initializeTables fails now d) = Inr ()"
    using shape by (simp add: initializeTables_def io_defs stats_sql_defs)
  show ?thesis
    using fixed runs row completes by simp
qed

theorem initializeTables_idempotent_witness:
  "initialised
     \<lparr>stats = Some [''global'' \<mapsto> (default_stats 1000)\<lparr>total_requests := 7, blocked_domains := 2\<rparr>],
      rate_limits = Some [''1.2.3.4'' \<mapsto> \<lparr>count = 5, timestamp = 1000\<rparr>]\<rparr>
   \<and> snd (initializeTables no_faults 2000
        \<lparr>stats = Some [''global'' \<mapsto> (default_stats 1000)\<lparr>total_requests := 7, blocked_domains := 2\<rparr>],
         rate_limits = Some [''1.2.3.4'' \<mapsto> \<lparr>count = 5, timestamp = 1000\<rparr>]\<rparr>) =
        \<lparr>stats = Some [''global'' \<mapsto> (default_stats 1000)\<lparr>total_requests := 7, blocked_domains := 2\<rparr>],
         rate_limits = Some [''1.2.3.4'' \<mapsto> \<lparr>count = 5, timestamp = 1000\<rparr>]\<rparr>
   \<and> map_option total_requests (global_stats (snd (initializeTables no_faults 2000
        \<lparr>stats = Some [''global'' \<mapsto> (default_stats 1000)\<lparr>total_requests := 7, blocked_domains := 2\<rparr>],
         rate_limits = Some [''1.2.3.4'' \<mapsto> \<lparr>count = 5, timestamp = 1000\<rparr>]\<rparr>))) = Some 7"
proof -
  have init: "initialised
     \<lparr>stats = Some [''global'' \<mapsto> (default_stats 1000)\<lparr>total_requests := 7, blocked_domains := 2\<rparr>],
      rate_limits = Some [''1.2.3.4'' \<mapsto> \<lparr>count = 5, timestamp = 1000\<rparr>]\<rparr>"
    by (simp add: initialised_def)
  have row: "map_option total_requests (global_stats
     \<lparr>stats = Some [''global'' \<mapsto> (default_stats 1000)\<lparr>total_requests := 7, blocked_domains := 2\<rparr>],
      rate_limits = Some [''1.2.3.4'' \<mapsto> \<lparr>count = 5, timestamp = 1000\<rparr>]\<rparr>) = Some 7"
    by (simp add: global_stats_def default_stats_def)
  note fixed = initializeTables_idempotent [OF init, of no_faults 2000 "[]"]
  have unchanged: "snd (initializeTables no_faults 2000
        \<lparr>stats = Some [''global'' \<mapsto> (default_stats 1000)\<lparr>total_requests := 7, blocked_domains := 2\<rparr>],
         rate_limits = Some [''1.2.3.4'' \<mapsto> \<lparr>count = 5, timestamp = 1000\<rparr>]\<rparr>) =
        \<lparr>stats = Some [''global'' \<mapsto> (default_stats 1000)\<lparr>total_requests := 7, blocked_domains := 2\<rparr>],
         rate_limits = Some [''1.2.3.4'' \<mapsto> \<lparr>count = 5, timestamp = 1000\<rparr>]\<rparr>"
    using fixed by blast
  show ?thesis
    using init row unchanged by simp
qed

text \<open>
  The first run on an empty store completes and seeds the row; the store it leaves is
  initialised, so the theorem applies to every later run.
\<close>

lemma initializeTables_first_run:
  "initializeTables no_faults 1000 fresh_db =
     (Inr (), \<lparr>stats = Some [''global'' \<mapsto> default_stats 1000], rate_limits = Some Map.empty\<rparr>)"
  by (simp add: initializeTables_def io_defs stats_sql_defs no_faults_def fresh_db_def)

section \<open>Properties of the batch checker\<close>








lemma stats_checkRateLimit:
  "stats (snd (checkRateLimit fails ip domainCount maxDomains windowMinutes now d)) = stats d"
  by (auto simp add: checkRateLimit_def checkRateLimit_try_def io_defs rate_sql_defs Let_def
      split: option.splits if_splits)


lemmas run_defs =
  check_handler_def checkRateLimit_def checkRateLimit_try_def initializeTables_def
  incrementStats_def stats_updates_def push_update_def add_column_def
  io_defs rate_sql_defs stats_sql_defs delete_expired_def default_stats_def
  no_faults_def never_fails_def steady_clock_def fresh_db_def global_stats_def entry_of_def
  client_ip_def MAX_DOMAINS_def WINDOW_MINUTES_def MAX_DOMAINS_PER_REQUEST_def empty_tally_def
  processBatches.simps batchSize_def checkBatch_def domain_result_def api_request_failed_def
  count_result_def result_json_def error_json_def mock_api_def api_down_def Let_def




text \<open>
  When the closing statistics update throws, the same request is answered 500 and
  carries no results.
\<close>

lemma check_handler_stats_failure:
  assumes "length domains \<le> MAX_DOMAINS_PER_REQUEST"
    and "allowed (fst (checkRateLimit f_rate (client_ip header) (int (length domains))
                        MAX_DOMAINS WINDOW_MINUTES now_rate d))"
    and "f_stats 0"
  shows "fst (check_handler f_rate now_rate f_stats now_stats fetch (DomainsArray domains) header d)
           = Response 500 (error_json ''Internal server error'')"
  using assms
  by (cases "checkRateLimit f_rate (client_ip header) (int (length domains))
               MAX_DOMAINS WINDOW_MINUTES now_rate d")
     (simp add: check_handler_def incrementStats_def stats_updates_def push_update_def
        io_defs Let_def)




text \<open>
  C7: if the request for a batch fails, that is \<open>fetch\<close> throws, the response is not
  \<open>ok\<close>, its body does not parse, or the parsed body is falsy or not of type
  \<open>object\<close>, then \<open>checkBatch\<close> returns one result for each domain of the batch, in
  order, with status \<open>Error: API request failed\<close>, \<open>blocked = false\<close> and
  \<open>error = true\<close>.
\<close>

theorem checkBatch_request_failed:
  assumes "fetch (join_commas domains) = NetworkError
     \<or> (\<exists>body. fetch (join_commas domains) = HttpResponse False body)
     \<or> fetch (join_commas domains) = HttpResponse True None
     \<or> (\<exists>data. fetch (join_commas domains) = HttpResponse True (Some data)
              \<and> (\<not> truthy data \<or> \<not> typeof_object data))"
  shows "checkBatch fetch domains =
     map (\<lambda>domain. \<lparr>originalUrl = domain, status = ''Error: API request failed'',
                     blocked = Bool False, error = True\<rparr>) domains"
  using assms
  by (auto simp add: checkBatch_def api_request_failed_def)

theorem checkBatch_request_failed_witness:
  "checkBatch (api_down 0) [''a.com'', ''b.com'', ''c.com''] =
     [\<lparr>originalUrl = ''a.com'', status = ''Error: API request failed'',
       blocked = Bool False, error = True\<rparr>,
      \<lparr>originalUrl = ''b.com'', status = ''Error: API request failed'',
       blocked = Bool False, error = True\<rparr>,
      \<lparr>originalUrl = ''c.com'', status = ''Error: API request failed'',
       blocked = Bool False, error = True\<rparr>]"
  using checkBatch_request_failed [of "api_down 0" "[''a.com'', ''b.com'', ''c.com'']"]
  by (simp add: api_down_def)

text \<open>
  \<open>object\<close> is meant as \<open>typeof\<close> means it: a body that is a JSON array passes the
  test, and the domains are then looked up in the array one by one. With the empty
  array every domain but \<open>__proto__\<close> gets the status of a missing entry.
\<close>

lemma checkBatch_empty_array_body:
  assumes "fetch (join_commas domains) = HttpResponse True (Some (Arr []))"
    and "''__proto__'' \<notin> set domains"
  shows "checkBatch fetch domains =
     map (\<lambda>domain. \<lparr>originalUrl = domain, status = ''Error: Invalid response'',
                     blocked = Bool False, error = True\<rparr>) domains"
  using assms
  by (auto simp add: checkBatch_def domain_result_def Let_def split: option.splits)

text \<open>
  A submitted domain \<open>__proto__\<close> that the response does not list reads the prototype
  of the response object and is reported as not blocked.
\<close>

lemma domain_result_proto:
  assumes "map_of entries ''__proto__'' = None"
  shows "domain_result (Obj entries) ''__proto__'' =
     \<lparr>originalUrl = ''__proto__'', status = ''Not Blocked'', blocked = Undefined, error = False\<rparr>"
  using assms by (simp add: domain_result_def)

section \<open>Concrete runs of the routes\<close>

text \<open>
  C2: every POST /check request adds exactly 1 to \<open>total_requests\<close>. The statistics
  middleware adds 1 for every such request, and the handler adds 1 again in the update
  that closes a successful request. One request for two domains, answered 200, on a
  store that was empty before leaves \<open>total_requests = 2\<close>.
\<close>

theorem post_check_counts_success_twice:
  "http_status (fst (post_check never_fails (steady_clock 1000) mock_api
      (DomainsArray [''good.com'', ''bad.com'']) (Some ''1.2.3.4'') fresh_db)) = 200
   \<and> global_stats (snd (post_check never_fails (steady_clock 1000) mock_api
      (DomainsArray [''good.com'', ''bad.com'']) (Some ''1.2.3.4'') fresh_db)) =
     Some \<lparr>total_requests = 2, total_domains_checked = 2, blocked_domains = 1,
           not_blocked_domains = 1, error_domains = 0, last_reset = 1000,
           unique_users = ''[]''\<rparr>"
  by (simp add: post_check_def run_defs)

text \<open>
  A request that fails validation is counted once, by the middleware alone: here a
  request with 101 domains.
\<close>

lemma post_check_counts_rejected_once:
  "fst (post_check never_fails (steady_clock 1000) api_down
      (DomainsArray (replicate 101 ''a.com'')) (Some ''1.2.3.4'') fresh_db) =
     Response 400 (error_json ''Maximum 100 domains per request'')
   \<and> map_option total_requests (global_stats (snd (post_check never_fails (steady_clock 1000)
      api_down (DomainsArray (replicate 101 ''a.com'')) (Some ''1.2.3.4'') fresh_db))) = Some 1"
  by (simp add: post_check_def run_defs)

text \<open>
  The same holds for every request that is answered 200 while the store is reachable:
  the counter of an existing statistics row grows by 2.
\<close>

lemma total_requests_foldl_push_update:
  "c \<noteq> TotalRequests \<Longrightarrow>
   total_requests (foldl (\<lambda>r (c, n). add_column c n r) row (push_update c v)) = total_requests row"
  by (cases c) (simp_all add: push_update_def add_column_def split: option.splits)

lemma total_requests_stats_updates:
  "total_requests (foldl (\<lambda>r (c, n). add_column c n r) row
      (stats_updates \<lparr>requests = Some 1, domainsChecked = a, d_blocked = b,
                       d_notBlocked = nb, d_errors = e\<rparr>)) = total_requests row + 1"
  by (simp add: stats_updates_def total_requests_foldl_push_update)
     (simp add: push_update_def add_column_def)

lemma incrementStats_adds_request:
  assumes "incrementStats fails \<lparr>requests = Some 1, domainsChecked = a, d_blocked = b,
              d_notBlocked = nb, d_errors = e\<rparr> now d = (Inr u, d')"
    and "global_stats d = Some row"
  shows "map_option total_requests (global_stats d') = Some (total_requests row + 1)"
proof -
  have nonempty: "0 < length (stats_updates \<lparr>requests = Some 1, domainsChecked = a, d_blocked = b,
              d_notBlocked = nb, d_errors = e\<rparr>)"
    by (simp add: stats_updates_def push_update_def)
  obtain t where t: "stats d = Some t" "t ''global'' = Some row"
    using assms(2) by (auto simp add: global_stats_def split: option.splits)
  have "d' = d\<lparr>stats := Some (t(''global'' \<mapsto> foldl (\<lambda>r (c, n). add_column c n r) row
      (stats_updates \<lparr>requests = Some 1, domainsChecked = a, d_blocked = b,
                       d_notBlocked = nb, d_errors = e\<rparr>)))\<rparr>"
    using assms(1) nonempty t
    by (auto simp add: incrementStats_def io_defs stats_sql_defs Let_def split: if_splits)
  then show ?thesis
    by (simp add: global_stats_def total_requests_stats_updates)
qed

lemma global_stats_checkRateLimit:
  "global_stats (snd (checkRateLimit fails ip domainCount maxDomains windowMinutes now d)) =
     global_stats d"
  by (simp add: global_stats_def stats_checkRateLimit)

lemma check_handler_adds_request:
  assumes "check_handler f_rate now_rate f_stats now_stats fetch body header d = (Response 200 j, d')"
    and "global_stats d = Some row"
  shows "map_option total_requests (global_stats d') = Some (total_requests row + 1)"
proof -
  obtain domains where body: "body = DomainsFalsy \<and> domains = [] \<or> body = DomainsArray domains"
    using assms(1)
    by (cases body) (auto simp add: check_handler_def internal_server_error_def)
  obtain rl d1 where rl:
    "checkRateLimit f_rate (client_ip header) (int (length domains))
       MAX_DOMAINS WINDOW_MINUTES now_rate d = (rl, d1)"
    by (cases "checkRateLimit f_rate (client_ip header) (int (length domains))
                 MAX_DOMAINS WINDOW_MINUTES now_rate d")
  have d1: "global_stats d1 = Some row"
    using global_stats_checkRateLimit [of f_rate "client_ip header" "int (length domains)"
        MAX_DOMAINS WINDOW_MINUTES now_rate d] rl assms(2)
    by simp
  have "\<exists>a b nb e. incrementStats f_stats
       \<lparr>requests = Some 1, domainsChecked = a, d_blocked = b, d_notBlocked = nb,
        d_errors = e\<rparr> now_stats d1 = (Inr (), d')"
    using assms(1) body rl
    by (auto simp add: check_handler_def Let_def split: if_splits prod.splits sum.splits)
       blast+
  then show ?thesis
    using incrementStats_adds_request d1 by blast
qed

lemma global_stats_initializeTables:
  assumes "global_stats d = Some row"
  shows "global_stats (snd (initializeTables fails now d)) = Some row"
  using assms initializeTables_keeps_stats [OF assms, of fails now]
  by (simp add: global_stats_def)

lemma post_check_success_adds_two:
  assumes "post_check never_fails clock fetch body header d = (Response 200 j, d')"
    and "global_stats d = Some row"
  shows "map_option total_requests (global_stats d') = Some (total_requests row + 2)"
proof -
  obtain r0 d0 where init: "initializeTables (never_fails 0) (clock 0) d = (r0, d0)"
    by (cases "initializeTables (never_fails 0) (clock 0) d")
  have d0: "global_stats d0 = Some row"
    using global_stats_initializeTables [OF assms(2), of "never_fails 0" "clock 0"] init by simp
  obtain r1 d1 where mw: "incrementStats (never_fails 1)
       \<lparr>requests = Some 1, domainsChecked = None, d_blocked = None,
        d_notBlocked = None, d_errors = None\<rparr> (clock 1) d0 = (r1, d1)"
    by (cases "incrementStats (never_fails 1)
       \<lparr>requests = Some 1, domainsChecked = None, d_blocked = None,
        d_notBlocked = None, d_errors = None\<rparr> (clock 1) d0")
  obtain t where t: "stats d0 = Some t" "t ''global'' = Some row"
    using d0 by (auto simp add: global_stats_def split: option.splits)
  have "r1 = Inr ()"
    using mw t
    by (auto simp add: incrementStats_def io_defs stats_sql_defs Let_def never_fails_def
        split: if_splits)
  then have d1: "map_option total_requests (global_stats d1) = Some (total_requests row + 1)"
    using incrementStats_adds_request mw d0 by blast
  then obtain row1 where row1: "global_stats d1 = Some row1" "total_requests row1 = total_requests row + 1"
    by auto
  have handler: "check_handler (never_fails 2) (clock 2) (never_fails 3) (clock 3) fetch body header d1
      = (Response 200 j, d')"
    using assms(1) init mw
    by (cases r0) (simp_all add: post_check_def error_json_def)
  have "map_option total_requests (global_stats d') = Some (total_requests row1 + 1)"
    using check_handler_adds_request [OF handler row1(1)] .
  then show ?thesis
    by (auto simp add: row1(2))
qed

text \<open>
  C4: a POST /check request with an empty \<open>domains\<close> array is rejected with 400 and
  \<open>No domains provided\<close> before the rate limiter is consulted. The handler of
  src/index.ts has no such guard: the request passes validation, the rate limiter is
  called with a count of 0 and writes an entry for the client, and the answer is 200
  with an empty \<open>results\<close> array.
\<close>

theorem post_check_accepts_empty_domains:
  "fst (post_check never_fails (steady_clock 1000) api_down (DomainsArray [])
      (Some ''1.2.3.4'') fresh_db) =
     Response 200 (Obj [(''results'', Arr []), (''remaining'', Num 1000),
                        (''resetTime'', Num 601002)])
   \<and> entry_of (snd (post_check never_fails (steady_clock 1000) api_down (DomainsArray [])
      (Some ''1.2.3.4'') fresh_db)) ''1.2.3.4'' = Some \<lparr>count = 0, timestamp = 1002\<rparr>"
  by (simp add: post_check_def run_defs)

text \<open>The handler of the key-value variant has the guard.\<close>

lemma check_guards_kv_empty_domains:
  "check_guards_kv (DomainsArray []) = Some (Response 400 (error_json ''No domains provided''))"
  by (simp add: check_guards_kv_def)

text \<open>
  C8: GET /stats/data returns \<open>uniqueUsers\<close> as a number, the count of recorded client
  identifiers. The handler of src/index.ts returns what \<open>JSON.parse\<close> makes of the
  \<open>unique_users\<close> text: on a newly initialised store, whose text is \<open>[]\<close>, the field is
  the empty array and not the number 0.
\<close>

theorem get_stats_data_uniqueUsers_array:
  "fst (get_stats_data JSON_parse never_fails (steady_clock 1000) fresh_db) =
     Response 200
       (Obj [(''totalRequests'', Num 0), (''totalDomainsChecked'', Num 0),
             (''blockedDomains'', Num 0), (''notBlockedDomains'', Num 0),
             (''errorDomains'', Num 0), (''lastReset'', Num 1000),
             (''uniqueUsers'', Arr [])])"
  by (simp add: get_stats_data_def stats_data_def getStats_def JSON_parse_def run_defs)

text \<open>
  Whatever the text holds, the field is the parsed value itself, and no function of
  db.ts writes the \<open>unique_users\<close> column after the row is seeded.
\<close>

lemma stats_data_uniqueUsers:
  assumes "getStats fails now now' d = (Inr s, d')" and "parse (unique_users s) = Some users"
  shows "get_prop (json (fst (stats_data parse fails now now' d))) ''uniqueUsers'' = users"
  using assms by (simp add: stats_data_def)

text \<open>The handler of the key-value variant returns the length of the list of users.\<close>

lemma stats_data_kv_uniqueUsers:
  "get_prop (json (fst (stats_data_kv now st))) ''uniqueUsers'' =
     Num (int (length (uniqueUsers (fst (initializeStats now st)))))"
  by (simp add: stats_data_kv_def split: prod.splits)

end
